theory Spec2Isabelle
  imports Main
begin

section \<open>Document Chat: session orchestration around a hosted provider\<close>

text \<open>
  The program is one Streamlit script, \<^verbatim>\<open>doc_chat.py\<close>, executed from top to bottom on
  every user action. What survives between two executions is \<^verbatim>\<open>st.session_state\<close>; what the
  script touches outside itself is the provider's HTTP API, the local disk (one transient
  file per upload) and the page it renders.

  The embedding makes each of these explicit:
  \<^item> \<^verbatim>\<open>st.session_state\<close> is the record \<open>session_state\<close>, passed in and returned;
  \<^item> the outside is the record \<open>world\<close>: the log of provider calls made so far, the set of
    paths that exist on disk, and the log of what was rendered;
  \<^item> the provider is a parameter, the record \<open>env\<close>: each endpoint maps the call log (whose
    last entry is the present call) to either a raised exception (\<open>Inl\<close>) or the value the
    script reads off the response (\<open>Inr\<close>). A function of the whole log covers every
    deterministic stateful provider, and nothing is assumed about it;
  \<^item> every \<^verbatim>\<open>try ... except Exception\<close> of the script is a case split on that sum;
  \<^item> an exception that no \<^verbatim>\<open>except\<close> catches ends the execution of the script where it is
    raised: the handler returns it (\<open>Some ex\<close>) next to the session state and the world as
    they are at that point, Streamlit shows it on the page, and what the script had
    assigned to \<^verbatim>\<open>st.session_state\<close> before stays assigned.

  The local disk is part of \<open>env\<close> too, and each of its operations may raise.
  \<^verbatim>\<open>NamedTemporaryFile\<close> (line 35) either raises, creating nothing (a suffix too long for a
  file name, a suffix with a path separator), or returns the path of the file it created;
  \<^verbatim>\<open>tmp_file.write\<close> (line 36) either raises, leaving the created file behind
  (\<^verbatim>\<open>delete=False\<close>), or returns. Both lines are outside the \<^verbatim>\<open>try\<close> of line 39.
  \<^verbatim>\<open>open\<close> (line 40) and \<^verbatim>\<open>os.remove\<close> (line 42) are inside it; the \<^verbatim>\<open>os.remove\<close> of line 47
  is inside the \<^verbatim>\<open>except\<close> branch, where nothing catches what it raises. A removal that raises
  leaves the file where it is. Spinners and the static parts of the page (title, headers,
  the replay of the transcript, the caption) carry no state and are left out.
\<close>

subsection \<open>Data\<close>

text \<open>A transcript entry, \<^verbatim>\<open>{"role": ..., "content": ...}\<close>.\<close>

record message =
  role :: string
  content :: string

text \<open>\<^verbatim>\<open>st.session_state\<close> with its three keys (lines 11 to 18).\<close>

record session_state =
  messages :: "message list"
  vector_store_id :: "string option"
  file_ids :: "string list"

definition initial_session_state :: session_state where
  "initial_session_state = \<lparr>messages = [], vector_store_id = None, file_ids = []\<rparr>"

text \<open>What \<^verbatim>\<open>st.file_uploader\<close> hands over for one document: its name and its bytes.\<close>

record uploaded_file =
  name :: string
  getvalue :: string

text \<open>An exception raised by the provider client; \<open>str\<close> is what \<^verbatim>\<open>{e}\<close> prints.\<close>

datatype exn = Exception (str: string)

text \<open>The object \<^verbatim>\<open>client.vector_stores.files.create\<close> returns; as an object it is truthy.\<close>

datatype vector_store_file = VectorStoreFile string

text \<open>The tool declaration \<^verbatim>\<open>{"type": "file_search", "vector_store_ids": [...]}\<close>.\<close>

datatype tool = FileSearch "string list"

text \<open>
  One request to the provider. The first field of each is the API key the client was built
  with. \<open>FilesCreate key path bytes purpose\<close>, \<open>VectorStoresCreate key name\<close>,
  \<open>VectorStoresFilesCreate key vector_store_id file_id\<close>,
  \<open>ResponsesCreate key model input tools\<close>.
\<close>

datatype call =
    FilesCreate string string string string
  | VectorStoresCreate string string
  | VectorStoresFilesCreate string string string
  | ResponsesCreate string string "message list" "tool list"

text \<open>
  What the script renders: the banners, the uncaught exception Streamlit displays when an
  execution ends with one, and the assistant's placeholder.
\<close>

datatype ui_event =
    St_error string
  | St_success string
  | St_info string
  | St_warning string
  | St_exception string
  | Placeholder_write string
  | Placeholder_error string

record world =
  calls :: "call list"
  files :: "string set"
  ui :: "ui_event list"

text \<open>
  The provider's four endpoints and the disk. \<open>named_temporary_file existing suffix\<close> is
  the path picked among the paths that exist; \<open>tmp_file_write path bytes\<close>, \<open>open_rb path\<close>
  and \<open>os_remove path failed\<close> give the exception the operation raises, if any, where
  \<open>failed\<close> counts the removals of this path that have already raised.
\<close>

record env =
  files_create :: "call list \<Rightarrow> exn + string"
  vector_stores_create :: "call list \<Rightarrow> exn + string"
  vector_stores_files_create :: "call list \<Rightarrow> exn + vector_store_file"
  responses_create :: "call list \<Rightarrow> exn + string"
  named_temporary_file :: "string set \<Rightarrow> string \<Rightarrow> exn + string"
  tmp_file_write :: "string \<Rightarrow> string \<Rightarrow> exn option"
  open_rb :: "string \<Rightarrow> exn option"
  os_remove :: "string \<Rightarrow> nat \<Rightarrow> exn option"

text \<open>The inputs of one execution of the script: the widgets' values.\<close>

record inputs =
  api_key :: string
  uploaded_files :: "uploaded_file list"
  process_documents_clicked :: bool
  clear_all_documents_clicked :: bool
  prompt :: "string option"
  uuid4 :: string

subsection \<open>Helpers of the embedding\<close>

definition do_call :: "call \<Rightarrow> world \<Rightarrow> world" where
  "do_call c w = w\<lparr>calls := calls w @ [c]\<rparr>"

definition render :: "ui_event \<Rightarrow> world \<Rightarrow> world" where
  "render ev w = w\<lparr>ui := ui w @ [ev]\<rparr>"

text \<open>Python's \<^verbatim>\<open>str\<close> of a length, as the f-string of line 99 prints it.\<close>

fun str_nat :: "nat \<Rightarrow> string" where
  "str_nat n =
     (if n < 10 then [''0123456789'' ! n]
      else str_nat (n div 10) @ [''0123456789'' ! (n mod 10)])"

declare str_nat.simps [simp del]

subsection \<open>The three provider wrappers (lines 34 to 68)\<close>

text \<open>
  Lines 45 to 48, the \<^verbatim>\<open>except\<close> branch of \<^verbatim>\<open>upload_file_to_openai\<close>: report the exception,
  remove the transient file if it exists, return \<^verbatim>\<open>None\<close>. An exception of this removal
  leaves the function uncaught (\<open>Inl\<close>).
\<close>

definition upload_failed ::
  "env \<Rightarrow> string \<Rightarrow> nat \<Rightarrow> exn \<Rightarrow> world \<Rightarrow> (exn + string option) \<times> world" where
  "upload_failed e path failed ex w =
     (let w3 = render (St_error (''Error uploading file to OpenAI: '' @ str ex)) w
      in if path \<in> files w3
         then (case os_remove e path failed of
                 None \<Rightarrow> (Inr None, w3\<lparr>files := files w3 - {path}\<rparr>)
               | Some ex2 \<Rightarrow> (Inl ex2, w3))
         else (Inr None, w3))"

text \<open>
  \<^verbatim>\<open>upload_file_to_openai\<close>. Lines 35 to 37 create the transient file and write the bytes;
  an exception there leaves the function uncaught (\<open>Inl\<close>). Lines 39 to 43: open the file,
  submit it with purpose \<^verbatim>\<open>"assistants"\<close>, remove it, return the id; an exception of any of
  the three goes to the \<^verbatim>\<open>except\<close> branch. The global \<^verbatim>\<open>client\<close> is the argument \<open>key\<close>.
\<close>

definition upload_file_to_openai ::
  "env \<Rightarrow> string \<Rightarrow> uploaded_file \<Rightarrow> world \<Rightarrow> (exn + string option) \<times> world" where
  "upload_file_to_openai e key uploaded_file w =
     (case named_temporary_file e (files w) (''_'' @ name uploaded_file) of
        Inl ex \<Rightarrow> (Inl ex, w)
      | Inr path \<Rightarrow>
          (let w1 = w\<lparr>files := insert path (files w)\<rparr>
           in case tmp_file_write e path (getvalue uploaded_file) of
                Some ex \<Rightarrow> (Inl ex, w1)
              | None \<Rightarrow>
                  (case open_rb e path of
                     Some ex \<Rightarrow> upload_failed e path 0 ex w1
                   | None \<Rightarrow>
                       (let w2 = do_call (FilesCreate key path (getvalue uploaded_file) ''assistants'') w1
                        in case files_create e (calls w2) of
                             Inl ex \<Rightarrow> upload_failed e path 0 ex w2
                           | Inr response_id \<Rightarrow>
                               (case os_remove e path 0 of
                                  None \<Rightarrow>
                                    (Inr (Some response_id), w2\<lparr>files := files w2 - {path}\<rparr>)
                                | Some ex \<Rightarrow> upload_failed e path 1 ex w2)))))"

text \<open>\<^verbatim>\<open>create_vector_store\<close>; \<open>uuid\<close> is the value of \<^verbatim>\<open>uuid.uuid4()\<close>.\<close>

definition create_vector_store :: "env \<Rightarrow> string \<Rightarrow> string \<Rightarrow> world \<Rightarrow> string option \<times> world" where
  "create_vector_store e key uuid w =
     (let w1 = do_call (VectorStoresCreate key (''knowledge_base_'' @ uuid)) w
      in case vector_stores_create e (calls w1) of
           Inr vs_id \<Rightarrow> (Some vs_id, w1)
         | Inl ex \<Rightarrow> (None, render (St_error (''Error creating vector store: '' @ str ex)) w1))"

text \<open>\<^verbatim>\<open>add_file_to_vector_store\<close>.\<close>

definition add_file_to_vector_store ::
  "env \<Rightarrow> string \<Rightarrow> string \<Rightarrow> string \<Rightarrow> world \<Rightarrow> vector_store_file option \<times> world" where
  "add_file_to_vector_store e key vsid file_id w =
     (let w1 = do_call (VectorStoresFilesCreate key vsid file_id) w
      in case vector_stores_files_create e (calls w1) of
           Inr result \<Rightarrow> (Some result, w1)
         | Inl ex \<Rightarrow> (None, render (St_error (''Error adding file to vector store: '' @ str ex)) w1))"

subsection \<open>The 'Process Documents' handler (lines 76 to 100)\<close>

text \<open>
  The body of the loop of line 86 for one document. \<^verbatim>\<open>if file_id:\<close> is false for \<^verbatim>\<open>None\<close>
  and for the empty string. The id is appended (line 90) before the attach is tried (line 91).
  The first component of the result is the exception that left \<^verbatim>\<open>upload_file_to_openai\<close>
  uncaught, if any.
\<close>

definition process_file ::
  "env \<Rightarrow> string \<Rightarrow> string \<Rightarrow> uploaded_file \<Rightarrow> session_state \<times> world \<Rightarrow>
     exn option \<times> (session_state \<times> world)" where
  "process_file e key vsid uploaded_file sw =
     (case sw of (s, w) \<Rightarrow>
        (case upload_file_to_openai e key uploaded_file w of
           (Inl ex, w1) \<Rightarrow> (Some ex, (s, w1))
         | (Inr None, w1) \<Rightarrow> (None, (s, w1))
         | (Inr (Some file_id), w1) \<Rightarrow>
             if file_id = [] then (None, (s, w1))
             else
               (let s1 = s\<lparr>file_ids := file_ids s @ [file_id]\<rparr>
                in case add_file_to_vector_store e key vsid file_id w1 of
                     (Some result, w2) \<Rightarrow>
                       (None, (s1, render (St_success (''Added '' @ name uploaded_file @
                                                      '' to knowledge base'')) w2))
                   | (None, w2) \<Rightarrow>
                       (None, (s1, render (St_error (''Failed to add '' @ name uploaded_file @
                                                    '' to knowledge base'')) w2)))))"

text \<open>The loop of line 86: it goes on to the next document unless an exception ends it.\<close>

fun process_files ::
  "env \<Rightarrow> string \<Rightarrow> string \<Rightarrow> uploaded_file list \<Rightarrow> session_state \<times> world \<Rightarrow>
     exn option \<times> (session_state \<times> world)" where
  "process_files e key vsid [] sw = (None, sw)"
| "process_files e key vsid (uploaded_file # rest) sw =
     (case process_file e key vsid uploaded_file sw of
        (Some ex, sw1) \<Rightarrow> (Some ex, sw1)
      | (None, sw1) \<Rightarrow> process_files e key vsid rest sw1)"

text \<open>
  The handler. Lines 82 and 83 store the new identifier and empty the handle list before the
  loop; line 98 empties the transcript after it, so only when the loop has run to its end.
\<close>

definition process_documents ::
  "env \<Rightarrow> string \<Rightarrow> string \<Rightarrow> uploaded_file list \<Rightarrow> session_state \<times> world \<Rightarrow>
     exn option \<times> (session_state \<times> world)" where
  "process_documents e key uuid docs sw =
     (case sw of (s, w) \<Rightarrow>
        (case create_vector_store e key uuid w of
           (None, w1) \<Rightarrow> (None, (s, w1))
         | (Some vsid, w1) \<Rightarrow>
             if vsid = [] then (None, (s, w1))
             else
               (case process_files e key vsid docs
                       (s\<lparr>vector_store_id := Some vsid, file_ids := []\<rparr>, w1) of
                  (Some ex, sw2) \<Rightarrow> (Some ex, sw2)
                | (None, (s2, w2)) \<Rightarrow>
                    (let s3 = s2\<lparr>messages := []\<rparr>
                     in (None,
                         (s3,
                          render (St_info ''You can now start chatting with your documents!'')
                            (render (St_success (''Successfully processed '' @
                                       str_nat (length (file_ids s3)) @ '' document(s)'')) w2)))))))"

subsection \<open>The 'Clear All Documents' handler (lines 107 to 112)\<close>

definition clear_all_documents :: "session_state \<times> world \<Rightarrow> session_state \<times> world" where
  "clear_all_documents sw =
     (case sw of (s, w) \<Rightarrow>
        (s\<lparr>vector_store_id := None, file_ids := [], messages := []\<rparr>,
         render (St_success ''All documents cleared'') w))"

subsection \<open>The chat input handler (lines 123 to 173)\<close>

definition system_prompt :: string where
  "system_prompt =
     ''You are a helpful assistant that only answers questions based on the '' @ [CHR 0x0A] @
     ''                            documents provided. If the question cannot be answered using the documents or is outside '' @ [CHR 0x0A] @
     ''                            their scope, respond with \"I don't know\" or \"I cannot answer this question based on the '' @ [CHR 0x0A] @
     ''                            documents provided.\" Do not use any knowledge outside of the provided documents.''"

definition key_message :: string where
  "key_message = ''Please enter your OpenAI API key in the sidebar.''"

definition upload_message :: string where
  "upload_message = ''Please upload and process documents first.''"

text \<open>
  \<open>client\<close> is \<^verbatim>\<open>None\<close> or the client built from the key. The question is appended at line 125,
  before line 135 looks at the client. \<^verbatim>\<open>not st.session_state.vector_store_id\<close> holds for
  \<^verbatim>\<open>None\<close> and for the empty string. \<open>chat_request\<close> is the request of lines 144 to 163: the
  fixed model, the system instruction followed by the question, and the file-search tool
  scoped to the collection.
\<close>

definition chat_request :: "string \<Rightarrow> string \<Rightarrow> string \<Rightarrow> call" where
  "chat_request key vsid question =
     ResponsesCreate key ''gpt-4o-mini''
       [\<lparr>role = ''system'', content = system_prompt\<rparr>, \<lparr>role = ''user'', content = question\<rparr>]
       [FileSearch [vsid]]"

definition ask :: "env \<Rightarrow> string option \<Rightarrow> string \<Rightarrow> session_state \<times> world \<Rightarrow> session_state \<times> world" where
  "ask e client question sw =
     (case sw of (s, w) \<Rightarrow>
        (let s1 = s\<lparr>messages := messages s @ [\<lparr>role = ''user'', content = question\<rparr>]\<rparr>
         in case client of
              None \<Rightarrow> (s1, render (Placeholder_write key_message) w)
            | Some key \<Rightarrow>
                (case vector_store_id s1 of
                   None \<Rightarrow> (s1, render (Placeholder_write upload_message) w)
                 | Some vsid \<Rightarrow>
                     if vsid = [] then (s1, render (Placeholder_write upload_message) w)
                     else
                       (let w1 = do_call (chat_request key vsid question) w
                        in case responses_create e (calls w1) of
                             Inr assistant_response \<Rightarrow>
                               (s1\<lparr>messages := messages s1 @
                                      [\<lparr>role = ''assistant'', content = assistant_response\<rparr>]\<rparr>,
                                render (Placeholder_write assistant_response) w1)
                           | Inl ex \<Rightarrow> (s1, render (Placeholder_error (''Error: '' @ str ex)) w1)))))"

subsection \<open>One execution of the script\<close>

text \<open>
  Lines 21 to 27 build the client; the sidebar runs the process handler when files and a
  client are there and the button was pressed. If the handler ends with an uncaught
  exception the execution ends there: Streamlit shows the exception and the session state
  stays as the handler left it. Otherwise the clear handler runs when the handle list is not
  empty and its button was pressed; \<^verbatim>\<open>st.rerun()\<close> ends this execution there (the execution
  it starts has no pending widget event and leaves the session state as it is); otherwise
  the chat input runs when a non-empty question was submitted.
\<close>

definition make_client :: "string \<Rightarrow> string option" where
  "make_client k = (if k \<noteq> [] then Some k else None)"

definition sidebar_process ::
  "env \<Rightarrow> inputs \<Rightarrow> session_state \<times> world \<Rightarrow> exn option \<times> (session_state \<times> world)" where
  "sidebar_process e inp sw =
     (case make_client (api_key inp) of
        None \<Rightarrow> (None, sw)
      | Some key \<Rightarrow>
          if uploaded_files inp \<noteq> [] \<and> process_documents_clicked inp
          then process_documents e key (uuid4 inp) (uploaded_files inp) sw
          else (None, sw))"

definition chat :: "env \<Rightarrow> inputs \<Rightarrow> session_state \<times> world \<Rightarrow> session_state \<times> world" where
  "chat e inp sw =
     (case prompt inp of
        None \<Rightarrow> sw
      | Some question \<Rightarrow>
          if question = [] then sw else ask e (make_client (api_key inp)) question sw)"

definition run :: "env \<Rightarrow> inputs \<Rightarrow> session_state \<times> world \<Rightarrow> session_state \<times> world" where
  "run e inp sw =
     (let sw0 = (if api_key inp \<noteq> [] then sw
                 else (fst sw, render (St_warning ''Please enter your OpenAI API key to continue'') (snd sw)))
      in case sidebar_process e inp sw0 of
           (Some ex, (s1, w1)) \<Rightarrow> (s1, render (St_exception (str ex)) w1)
         | (None, sw1) \<Rightarrow>
             if file_ids (fst sw1) \<noteq> [] \<and> clear_all_documents_clicked inp
             then clear_all_documents sw1
             else chat e inp sw1)"

text \<open>
  The session states the script can be in: it starts from the initial one, in any world,
  and every execution of the script, on any inputs, leads to the next.
\<close>

inductive reachable :: "env \<Rightarrow> session_state \<times> world \<Rightarrow> bool" for e :: env where
  start: "reachable e (initial_session_state, w)"
| step: "reachable e sw \<Longrightarrow> reachable e (run e inp sw)"

section \<open>Reading the logs\<close>

text \<open>What a provider call says about the batch: the file identifier an attach request carried.\<close>

fun attached_ids :: "call \<Rightarrow> string list" where
  "attached_ids (VectorStoresFilesCreate k v f) = [f]"
| "attached_ids _ = []"

text \<open>
  The requests one pass of the loop sends for a document whose transient file is at \<open>path\<close>,
  from the call log \<open>log\<close>: the upload request, and the attach request when the upload
  returns a non-empty identifier.
\<close>

definition upload_request :: "string \<Rightarrow> string \<Rightarrow> uploaded_file \<Rightarrow> call" where
  "upload_request key path uploaded_file =
     FilesCreate key path (getvalue uploaded_file) ''assistants''"

definition attach_requests :: "env \<Rightarrow> string \<Rightarrow> string \<Rightarrow> call list \<Rightarrow> call list" where
  "attach_requests e key vsid log =
     (case files_create e log of
        Inl ex \<Rightarrow> []
      | Inr file_id \<Rightarrow> if file_id = [] then [] else [VectorStoresFilesCreate key vsid file_id])"

text \<open>The half of the collection/handle relation that the script maintains.\<close>

definition handles_imply_collection :: "session_state \<Rightarrow> bool" where
  "handles_imply_collection s =
     (file_ids s = [] \<or> (case vector_store_id s of None \<Rightarrow> False | Some vsid \<Rightarrow> vsid \<noteq> []))"

section \<open>Scenarios\<close>

text \<open>
  Documents, an empty world, and providers that differ in the one endpoint that fails. The
  provider that works numbers its identifiers by the length of the call log. The disk is the
  same in all of them: a file name holds at most 255 bytes, of which \<^verbatim>\<open>NamedTemporaryFile\<close>
  takes 11 for \<^verbatim>\<open>tmp\<close> and its eight random characters, so a suffix of more than 244 bytes
  is refused; writing, opening and removing never fail.
\<close>

definition report :: uploaded_file where
  "report = \<lparr>name = ''report.pdf'', getvalue = ''%PDF-1.4 Q3 budget''\<rparr>"

definition minutes :: uploaded_file where
  "minutes = \<lparr>name = ''minutes.txt'', getvalue = ''meeting minutes''\<rparr>"

definition figures :: uploaded_file where
  "figures = \<lparr>name = ''figures.csv'', getvalue = ''q,amount''\<rparr>"

definition long_name :: uploaded_file where
  "long_name = \<lparr>name = replicate 250 (CHR ''a'') @ ''.pdf'', getvalue = ''%PDF-1.4 annex''\<rparr>"

definition empty_world :: world where
  "empty_world = \<lparr>calls = [], files = {}, ui = []\<rparr>"

definition provider_ok :: env where
  "provider_ok =
     \<lparr>files_create = (\<lambda>log. Inr (''file-'' @ str_nat (length log))),
      vector_stores_create = (\<lambda>log. Inr (''vs_'' @ str_nat (length log))),
      vector_stores_files_create = (\<lambda>log. Inr (VectorStoreFile ''attached'')),
      responses_create = (\<lambda>log. Inr ''The Q3 budget is 40.''),
      named_temporary_file =
        (\<lambda>existing suffix.
           if 244 < length suffix then Inl (Exception ''[Errno 36] File name too long'')
           else Inr (''/tmp/tmpk3x9w2ab'' @ suffix)),
      tmp_file_write = (\<lambda>path bytes. None),
      open_rb = (\<lambda>path. None),
      os_remove = (\<lambda>path failed. None)\<rparr>"

definition attach_fails :: env where
  "attach_fails =
     provider_ok\<lparr>vector_stores_files_create := (\<lambda>log. Inl (Exception ''file not ready''))\<rparr>"

definition upload_fails :: env where
  "upload_fails = provider_ok\<lparr>files_create := (\<lambda>log. Inl (Exception ''quota exceeded''))\<rparr>"

text \<open>
  The second request of the batch, the first upload, is rejected; the fourth, the first
  attach, is rejected too.
\<close>

definition flaky :: env where
  "flaky =
     provider_ok
       \<lparr>files_create :=
          (\<lambda>log. if length log = 2 then Inl (Exception ''file too large'')
                 else Inr (''file-'' @ str_nat (length log))),
        vector_stores_files_create :=
          (\<lambda>log. if length log = 4 then Inl (Exception ''file not ready'')
                 else Inr (VectorStoreFile ''attached''))\<rparr>"

definition create_fails :: env where
  "create_fails = provider_ok\<lparr>vector_stores_create := (\<lambda>log. Inl (Exception ''rate limit''))\<rparr>"

definition second_create_fails :: env where
  "second_create_fails =
     provider_ok\<lparr>vector_stores_create :=
       (\<lambda>log. if length log = 1 then Inr ''vs_1'' else Inl (Exception ''rate limit''))\<rparr>"

definition chat_fails :: env where
  "chat_fails = provider_ok\<lparr>responses_create := (\<lambda>log. Inl (Exception ''timeout''))\<rparr>"

text \<open>The user has entered a key, picked \<open>report\<close> and pressed 'Process Documents'.\<close>

definition process_click :: inputs where
  "process_click =
     \<lparr>api_key = ''sk-test'', uploaded_files = [report], process_documents_clicked = True,
      clear_all_documents_clicked = False, prompt = None, uuid4 = ''6f1c''\<rparr>"

text \<open>The user, with the same key and file, asks a question and presses no button.\<close>

definition question_asked :: inputs where
  "question_asked =
     \<lparr>api_key = ''sk-test'', uploaded_files = [report], process_documents_clicked = False,
      clear_all_documents_clicked = False, prompt = Some ''What is the budget in Q3?'',
      uuid4 = ''6f1c''\<rparr>"

text \<open>
  A session after one answered question, one right after a batch, and the state in which the
  loop of line 86 starts when the collection \<open>vs_1\<close> has just been created.
\<close>

definition old_session :: session_state where
  "old_session =
     \<lparr>messages = [\<lparr>role = ''user'', content = ''What is the budget in Q3?''\<rparr>,
                  \<lparr>role = ''assistant'', content = ''The Q3 budget is 40.''\<rparr>],
      vector_store_id = Some ''vs_old'', file_ids = [''file-old-1'', ''file-old-2'']\<rparr>"

definition active_session :: session_state where
  "active_session = \<lparr>messages = [], vector_store_id = Some ''vs_1'', file_ids = [''file-2'']\<rparr>"

definition created_world :: world where
  "created_world =
     \<lparr>calls = [VectorStoresCreate ''sk-test'' ''knowledge_base_6f1c''], files = {}, ui = []\<rparr>"

section \<open>Facts about the handlers\<close>

lemmas handler_defs =
  upload_file_to_openai_def upload_failed_def create_vector_store_def add_file_to_vector_store_def
  process_file_def process_documents_def clear_all_documents_def ask_def chat_request_def
  upload_request_def attach_requests_def do_call_def render_def Let_def

lemmas script_defs =
  run_def sidebar_process_def chat_def make_client_def initial_session_state_def

lemmas scenario_defs =
  provider_ok_def attach_fails_def upload_fails_def flaky_def create_fails_def
  second_create_fails_def chat_fails_def report_def minutes_def figures_def long_name_def
  empty_world_def process_click_def question_asked_def old_session_def active_session_def
  created_world_def

lemma str_nat_digit [simp]: "n < 10 \<Longrightarrow> str_nat n = [''0123456789'' ! n]"
  by (simp add: str_nat.simps)

subsection \<open>What one upload and one attach leave behind\<close>

lemma upload_failed_returns:
  assumes "os_remove e path failed = None"
  shows "fst (upload_failed e path failed ex w) = Inr None"
    and "files (snd (upload_failed e path failed ex w)) = files w - {path}"
    and "calls (snd (upload_failed e path failed ex w)) = calls w"
  using assms by (auto simp add: upload_failed_def Let_def render_def)

lemma upload_failed_calls:
  "calls (snd (upload_failed e path failed ex w)) = calls w"
  by (simp add: upload_failed_def Let_def render_def split: option.splits)

lemma upload_failed_gone:
  assumes "fst (upload_failed e path failed ex w) = Inr result"
  shows "path \<notin> files (snd (upload_failed e path failed ex w))"
  using assms by (auto simp add: upload_failed_def Let_def render_def split: option.splits if_splits)

lemma upload_returns:
  assumes "named_temporary_file e (files w) (''_'' @ name f) = Inr path"
    and "tmp_file_write e path (getvalue f) = None"
    and "open_rb e path = None"
    and "os_remove e path 0 = None"
  shows "fst (upload_file_to_openai e key f w) =
           Inr (case files_create e (calls w @ [upload_request key path f]) of
                  Inl ex \<Rightarrow> None | Inr file_id \<Rightarrow> Some file_id)"
    and "calls (snd (upload_file_to_openai e key f w)) = calls w @ [upload_request key path f]"
    and "files (snd (upload_file_to_openai e key f w)) = files w - {path}"
  using assms
  by (auto simp add: upload_file_to_openai_def upload_request_def Let_def do_call_def
      upload_failed_returns split: sum.splits)

text \<open>Whenever the upload returns, the transient file is gone.\<close>

lemma upload_returned_gone:
  assumes "named_temporary_file e (files w) (''_'' @ name f) = Inr path"
    and "fst (upload_file_to_openai e key f w) = Inr result"
  shows "path \<notin> files (snd (upload_file_to_openai e key f w))"
proof (cases "tmp_file_write e path (getvalue f)")
  case (Some ex)
  then show ?thesis using assms by (simp add: upload_file_to_openai_def Let_def)
next
  case None
  let ?w1 = "w\<lparr>files := insert path (files w)\<rparr>"
  let ?w2 = "do_call (FilesCreate key path (getvalue f) ''assistants'') ?w1"
  show ?thesis
  proof (cases "open_rb e path")
    case (Some ex)
    have u: "upload_file_to_openai e key f w = upload_failed e path 0 ex ?w1"
      using assms(1) None Some by (simp add: upload_file_to_openai_def Let_def)
    show ?thesis using assms(2) upload_failed_gone [of e path 0 ex ?w1 result] by (simp add: u)
  next
    case op: None
    show ?thesis
    proof (cases "files_create e (calls ?w2)")
      case (Inl ex)
      have u: "upload_file_to_openai e key f w = upload_failed e path 0 ex ?w2"
        using assms(1) None op Inl by (simp add: upload_file_to_openai_def Let_def)
      show ?thesis using assms(2) upload_failed_gone [of e path 0 ex ?w2 result] by (simp add: u)
    next
      case (Inr fid)
      show ?thesis
      proof (cases "os_remove e path 0")
        case rm: None
        then show ?thesis using assms(1) None op Inr
          by (simp add: upload_file_to_openai_def Let_def)
      next
        case (Some ex)
        have u: "upload_file_to_openai e key f w = upload_failed e path 1 ex ?w2"
          using assms(1) None op Inr Some by (simp add: upload_file_to_openai_def Let_def)
        show ?thesis using assms(2) upload_failed_gone [of e path 1 ex ?w2 result] by (simp add: u)
      qed
    qed
  qed
qed

lemma upload_calls_extend:
  "\<exists>more. calls (snd (upload_file_to_openai e key f w)) = calls w @ more \<and>
          concat (map attached_ids more) = []"
  by (simp add: upload_file_to_openai_def Let_def do_call_def upload_failed_calls
      split: sum.splits option.splits)

lemma upload_attached_ids:
  "concat (map attached_ids (calls (snd (upload_file_to_openai e key f w)))) =
     concat (map attached_ids (calls w))"
proof -
  obtain more where "calls (snd (upload_file_to_openai e key f w)) = calls w @ more"
      "concat (map attached_ids more) = []"
    using upload_calls_extend [of e key f w] by blast
  then show ?thesis by simp
qed

lemma add_file_calls:
  "calls (snd (add_file_to_vector_store e key v fid w)) =
     calls w @ [VectorStoresFilesCreate key v fid]"
  by (simp add: add_file_to_vector_store_def Let_def do_call_def render_def split: sum.splits)

subsection \<open>One pass of the loop\<close>

lemma process_file_vector_store_id:
  "vector_store_id (fst (snd (process_file e key v f sw))) = vector_store_id (fst sw)"
  by (simp add: process_file_def Let_def split: prod.splits option.splits sum.splits)

lemma process_file_messages_update:
  "process_file e key v f (s\<lparr>messages := m\<rparr>, w) =
     (fst (process_file e key v f (s, w)),
      (fst (snd (process_file e key v f (s, w))))\<lparr>messages := m\<rparr>,
      snd (snd (process_file e key v f (s, w))))"
  by (simp add: process_file_def Let_def split: prod.splits option.splits sum.splits)

text \<open>
  A pass sends as many attach requests as it adds handles (none or one), also when it ends
  with an exception.
\<close>

lemma process_file_attaches:
  "\<exists>ids. file_ids (fst (snd (process_file e key v f sw))) = file_ids (fst sw) @ ids \<and>
         concat (map attached_ids (calls (snd (snd (process_file e key v f sw))))) =
           concat (map attached_ids (calls (snd sw))) @ ids"
proof -
  obtain s w where sw: "sw = (s, w)" by (cases sw)
  obtain r w1 where up: "upload_file_to_openai e key f w = (r, w1)"
    by (cases "upload_file_to_openai e key f w")
  have c1: "concat (map attached_ids (calls w1)) = concat (map attached_ids (calls w))"
    using upload_attached_ids [of e key f w] up by simp
  show ?thesis
  proof (cases r)
    case (Inl ex)
    then show ?thesis using sw up c1 by (simp add: process_file_def)
  next
    case (Inr res)
    show ?thesis
    proof (cases res)
      case None
      then show ?thesis using sw up c1 Inr by (simp add: process_file_def)
    next
      case (Some fid)
      obtain r2 w2 where ad: "add_file_to_vector_store e key v fid w1 = (r2, w2)"
        by (cases "add_file_to_vector_store e key v fid w1")
      have c2: "calls w2 = calls w1 @ [VectorStoresFilesCreate key v fid]"
        using add_file_calls [of e key v fid w1] ad by simp
      show ?thesis using sw up c1 Inr Some ad c2
        by (cases r2) (simp_all add: process_file_def Let_def render_def)
    qed
  qed
qed



subsection \<open>The loop over the batch\<close>

lemma process_files_vector_store_id:
  "vector_store_id (fst (snd (process_files e key v docs sw))) = vector_store_id (fst sw)"
proof (induction docs arbitrary: sw)
  case Nil
  then show ?case by simp
next
  case (Cons f docs)
  obtain r sw1 where p: "process_file e key v f sw = (r, sw1)"
    by (cases "process_file e key v f sw")
  have v1: "vector_store_id (fst sw1) = vector_store_id (fst sw)"
    using process_file_vector_store_id [of e key v f sw] p by simp
  show ?case using p v1 Cons.IH [of sw1] by (cases r) simp_all
qed

lemma process_files_messages_update:
  "process_files e key v docs (s\<lparr>messages := m\<rparr>, w) =
     (fst (process_files e key v docs (s, w)),
      (fst (snd (process_files e key v docs (s, w))))\<lparr>messages := m\<rparr>,
      snd (snd (process_files e key v docs (s, w))))"
proof (induction docs arbitrary: s w)
  case Nil
  then show ?case by simp
next
  case (Cons f docs)
  obtain r s1 w1 where p: "process_file e key v f (s, w) = (r, (s1, w1))"
    by (cases "process_file e key v f (s, w)") auto
  show ?case
    using Cons.IH [of s1 w1] by (cases r) (simp_all add: process_file_messages_update p)
qed

lemma process_files_attaches:
  "\<exists>ids. file_ids (fst (snd (process_files e key v docs sw))) = file_ids (fst sw) @ ids \<and>
         concat (map attached_ids (calls (snd (snd (process_files e key v docs sw))))) =
           concat (map attached_ids (calls (snd sw))) @ ids"
proof (induction docs arbitrary: sw)
  case Nil
  then show ?case by simp
next
  case (Cons f docs)
  obtain r sw1 where p: "process_file e key v f sw = (r, sw1)"
    by (cases "process_file e key v f sw")
  obtain ids1 where 1: "file_ids (fst sw1) = file_ids (fst sw) @ ids1"
      "concat (map attached_ids (calls (snd sw1))) = concat (map attached_ids (calls (snd sw))) @ ids1"
    using process_file_attaches [of e key v f sw] p by auto
  show ?case
  proof (cases r)
    case (Some ex)
    then show ?thesis using p 1 by simp
  next
    case None
    obtain ids2 where 2: "file_ids (fst (snd (process_files e key v docs sw1))) = file_ids (fst sw1) @ ids2"
        "concat (map attached_ids (calls (snd (snd (process_files e key v docs sw1))))) =
           concat (map attached_ids (calls (snd sw1))) @ ids2"
      using Cons.IH [of sw1] by blast
    show ?thesis using p None 1 2 by simp
  qed
qed



subsection \<open>The batch after a successful creation\<close>

lemma process_documents_created:
  assumes "vector_stores_create e (calls w @ [VectorStoresCreate key (''knowledge_base_'' @ uuid)]) = Inr vsid"
    and "vsid \<noteq> []"
  shows "process_documents e key uuid docs (s, w) =
           (let r = process_files e key vsid docs
                      (s\<lparr>vector_store_id := Some vsid, file_ids := []\<rparr>,
                       do_call (VectorStoresCreate key (''knowledge_base_'' @ uuid)) w)
            in case fst r of
                 Some ex \<Rightarrow> r
               | None \<Rightarrow>
                   (None,
                    (fst (snd r))\<lparr>messages := []\<rparr>,
                    render (St_info ''You can now start chatting with your documents!'')
                      (render (St_success (''Successfully processed '' @
                                 str_nat (length (file_ids (fst (snd r)))) @ '' document(s)''))
                         (snd (snd r)))))"
  using assms
  by (simp add: process_documents_def create_vector_store_def do_call_def Let_def
      split: prod.splits option.splits)

lemma process_documents_session:
  assumes "vector_stores_create e (calls w @ [VectorStoresCreate key (''knowledge_base_'' @ uuid)]) = Inr vsid"
    and "vsid \<noteq> []"
  shows "vector_store_id (fst (snd (process_documents e key uuid docs (s, w)))) = Some vsid"
    and "file_ids (fst (snd (process_documents e key uuid docs (s, w)))) =
           file_ids (fst (snd (process_files e key vsid docs
             (s\<lparr>vector_store_id := Some vsid, file_ids := []\<rparr>,
              do_call (VectorStoresCreate key (''knowledge_base_'' @ uuid)) w))))"
    and "calls (snd (snd (process_documents e key uuid docs (s, w)))) =
           calls (snd (snd (process_files e key vsid docs
             (s\<lparr>vector_store_id := Some vsid, file_ids := []\<rparr>,
              do_call (VectorStoresCreate key (''knowledge_base_'' @ uuid)) w))))"
proof -
  let ?start = "(s\<lparr>vector_store_id := Some vsid, file_ids := []\<rparr>,
                 do_call (VectorStoresCreate key (''knowledge_base_'' @ uuid)) w)"
  let ?r = "process_files e key vsid docs ?start"
  have v: "vector_store_id (fst (snd ?r)) = Some vsid"
    using process_files_vector_store_id [of e key vsid docs ?start] by simp
  show "vector_store_id (fst (snd (process_documents e key uuid docs (s, w)))) = Some vsid"
    unfolding process_documents_created [OF assms] Let_def
    using v by (cases "fst ?r") simp_all
  show "file_ids (fst (snd (process_documents e key uuid docs (s, w)))) = file_ids (fst (snd ?r))"
    unfolding process_documents_created [OF assms] Let_def
    by (cases "fst ?r") simp_all
  show "calls (snd (snd (process_documents e key uuid docs (s, w)))) = calls (snd (snd ?r))"
    unfolding process_documents_created [OF assms] Let_def
    by (cases "fst ?r") (simp_all add: render_def)
qed

subsection \<open>Every execution keeps a collection behind a non-empty handle list\<close>

lemma ask_session:
  "vector_store_id (fst (ask e client question sw)) = vector_store_id (fst sw) \<and>
   file_ids (fst (ask e client question sw)) = file_ids (fst sw)"
  by (simp add: ask_def Let_def split: prod.splits option.splits sum.splits)

lemma process_documents_keeps_invariant:
  assumes "handles_imply_collection (fst sw)"
  shows "handles_imply_collection (fst (snd (process_documents e key uuid docs sw)))"
proof -
  obtain s w where sw: "sw = (s, w)" by (cases sw)
  let ?c = "calls w @ [VectorStoresCreate key (''knowledge_base_'' @ uuid)]"
  show ?thesis
  proof (cases "vector_stores_create e ?c")
    case (Inl ex)
    then show ?thesis using assms sw
      by (simp add: process_documents_def create_vector_store_def do_call_def)
  next
    case (Inr vsid)
    show ?thesis
    proof (cases "vsid = []")
      case True
      then show ?thesis using assms sw Inr
        by (simp add: process_documents_def create_vector_store_def do_call_def)
    next
      case False
      have "vector_store_id (fst (snd (process_documents e key uuid docs (s, w)))) = Some vsid"
        by (rule process_documents_session(1) [OF Inr False])
      then show ?thesis using False sw by (simp add: handles_imply_collection_def)
    qed
  qed
qed

lemma sidebar_process_keeps_invariant:
  assumes "handles_imply_collection (fst sw)"
  shows "handles_imply_collection (fst (snd (sidebar_process e inp sw)))"
proof (cases "make_client (api_key inp)")
  case None
  then show ?thesis using assms by (simp add: sidebar_process_def)
next
  case (Some key)
  then show ?thesis
    using assms process_documents_keeps_invariant [OF assms, of e key "uuid4 inp" "uploaded_files inp"]
    by (simp add: sidebar_process_def)
qed

lemma chat_keeps_invariant:
  assumes "handles_imply_collection (fst sw)"
  shows "handles_imply_collection (fst (chat e inp sw))"
proof (cases "prompt inp")
  case None
  then show ?thesis using assms by (simp add: chat_def)
next
  case (Some question)
  then show ?thesis
    using assms ask_session [of e "make_client (api_key inp)" question sw]
    by (simp add: chat_def handles_imply_collection_def)
qed

lemma clear_all_documents_invariant:
  "handles_imply_collection (fst (clear_all_documents sw))"
  by (simp add: clear_all_documents_def handles_imply_collection_def split: prod.splits)

lemma run_keeps_invariant:
  assumes "handles_imply_collection (fst sw)"
  shows "handles_imply_collection (fst (run e inp sw))"
proof -
  define sw0 where "sw0 = (if api_key inp \<noteq> [] then sw
              else (fst sw, render (St_warning ''Please enter your OpenAI API key to continue'') (snd sw)))"
  have 0: "handles_imply_collection (fst sw0)" using assms by (simp add: sw0_def)
  obtain r sw1 where sb: "sidebar_process e inp sw0 = (r, sw1)"
    by (cases "sidebar_process e inp sw0")
  have 1: "handles_imply_collection (fst sw1)"
    using sidebar_process_keeps_invariant [OF 0, of e inp] sb by simp
  show ?thesis
  proof (cases r)
    case (Some ex)
    have "run e inp sw = (fst sw1, render (St_exception (str ex)) (snd sw1))"
      using sb Some by (simp add: run_def Let_def sw0_def split: prod.splits)
    then show ?thesis using 1 by simp
  next
    case None
    have "run e inp sw =
            (if file_ids (fst sw1) \<noteq> [] \<and> clear_all_documents_clicked inp
             then clear_all_documents sw1 else chat e inp sw1)"
      using sb None by (simp add: run_def Let_def sw0_def)
    then show ?thesis
      using chat_keeps_invariant [OF 1, of e inp] clear_all_documents_invariant [of sw1] by simp
  qed
qed

lemma reachable_invariant:
  assumes "reachable e sw"
  shows "handles_imply_collection (fst sw)"
  using assms
proof (induction rule: reachable.induct)
  case (start w)
  then show ?case by (simp add: handles_imply_collection_def initial_session_state_def)
next
  case (step sw inp)
  then show ?case by (simp add: run_keeps_invariant)
qed

subsection \<open>The scenarios, evaluated\<close>

lemma run_process_ok:
  "run provider_ok process_click (initial_session_state, empty_world) =
     (\<lparr>messages = [], vector_store_id = Some ''vs_1'', file_ids = [''file-2'']\<rparr>,
      \<lparr>calls = [VectorStoresCreate ''sk-test'' ''knowledge_base_6f1c'',
                FilesCreate ''sk-test'' ''/tmp/tmpk3x9w2ab_report.pdf'' ''%PDF-1.4 Q3 budget'' ''assistants'',
                VectorStoresFilesCreate ''sk-test'' ''vs_1'' ''file-2''],
       files = {},
       ui = [St_success ''Added report.pdf to knowledge base'',
             St_success ''Successfully processed 1 document(s)'',
             St_info ''You can now start chatting with your documents!'']\<rparr>)"
  by (simp add: handler_defs script_defs scenario_defs)

section \<open>Properties\<close>

subsection \<open>The handle list after a batch\<close>

text \<open>
  C1. The handle list is meant to count the documents of the batch that were both uploaded and
  attached. The script appends the identifier at line 90, before it tries the attach at line
  91, so a document whose attach fails is listed: with one document, an upload that returns
  \<open>file-2\<close> and an attach that raises, the handler returns with a list of length one, while
  the page shows 'Failed to add report.pdf to knowledge base' followed by 'Successfully
  processed 1 document(s)'.
\<close>

theorem C1_failed_attach_is_listed:
  "process_documents attach_fails ''sk-test'' ''6f1c'' [report] (initial_session_state, empty_world) =
     (None,
      \<lparr>messages = [], vector_store_id = Some ''vs_1'', file_ids = [''file-2'']\<rparr>,
      \<lparr>calls = [VectorStoresCreate ''sk-test'' ''knowledge_base_6f1c'',
                FilesCreate ''sk-test'' ''/tmp/tmpk3x9w2ab_report.pdf'' ''%PDF-1.4 Q3 budget'' ''assistants'',
                VectorStoresFilesCreate ''sk-test'' ''vs_1'' ''file-2''],
       files = {},
       ui = [St_error ''Error adding file to vector store: file not ready'',
             St_error ''Failed to add report.pdf to knowledge base'',
             St_success ''Successfully processed 1 document(s)'',
             St_info ''You can now start chatting with your documents!'']\<rparr>)"
  by (simp add: handler_defs script_defs scenario_defs)

subsection \<open>Collection and handles\<close>

text \<open>
  C2, as the script has it. In every reachable session state, if at least one handle is
  listed then a collection identifier is held, and it is not empty. The converse is not
  maintained: the identifier is stored at line 82, before any upload.
\<close>

theorem C2_listed_handle_implies_collection:
  assumes "reachable e (s, w)" and "file_ids s \<noteq> []"
  shows "\<exists>vsid. vector_store_id s = Some vsid \<and> vsid \<noteq> []"
  using reachable_invariant [OF assms(1)] assms(2)
  by (simp add: handles_imply_collection_def split: option.splits)

theorem C2_listed_handle_implies_collection_witness:
  "reachable provider_ok (run provider_ok process_click (initial_session_state, empty_world)) \<and>
   file_ids (fst (run provider_ok process_click (initial_session_state, empty_world))) = [''file-2''] \<and>
   (\<exists>vsid. vector_store_id (fst (run provider_ok process_click (initial_session_state, empty_world))) =
             Some vsid \<and> vsid \<noteq> [])"
proof -
  have r: "reachable provider_ok (run provider_ok process_click (initial_session_state, empty_world))"
    by (rule reachable.step [OF reachable.start])
  have f: "file_ids \<lparr>messages = [], vector_store_id = Some ''vs_1'', file_ids = [''file-2'']\<rparr> \<noteq> []"
    by simp
  show ?thesis
    using r f C2_listed_handle_implies_collection [OF r [unfolded run_process_ok] f]
    by (simp add: run_process_ok)
qed

text \<open>
  C2 as stated fails. The collection is created, the only upload of the batch is rejected:
  the session holds the collection \<open>vs_1\<close> and lists no handle.
\<close>

theorem C2_collection_without_handles:
  "reachable upload_fails (run upload_fails process_click (initial_session_state, empty_world)) \<and>
   vector_store_id (fst (run upload_fails process_click (initial_session_state, empty_world))) =
     Some ''vs_1'' \<and>
   file_ids (fst (run upload_fails process_click (initial_session_state, empty_world))) = []"
proof -
  have r: "reachable upload_fails (run upload_fails process_click (initial_session_state, empty_world))"
    by (rule reachable.step [OF reachable.start])
  have ev: "fst (run upload_fails process_click (initial_session_state, empty_world)) =
              \<lparr>messages = [], vector_store_id = Some ''vs_1'', file_ids = []\<rparr>"
    by (simp add: handler_defs script_defs scenario_defs)
  show ?thesis using r by (simp add: ev)
qed

subsection \<open>Processing again\<close>

text \<open>
  C3, as the script has it. When the new collection is created, the handler stores the new
  identifier and empties the handle list before the first document (lines 82 and 83): whether
  it returns or ends with an exception, the session holds the new identifier, the outcome is
  the same whatever the previous identifier and handle list were, and every handle listed is
  one an attach request of this batch carried. The transcript is emptied after the loop (line
  98): when the handler returns, the transcript is empty and the outcome is the one a fresh
  session would have had.
\<close>

theorem C3_reprocess_replaces_session:
  assumes "vector_stores_create e (calls w @ [VectorStoresCreate key (''knowledge_base_'' @ uuid)]) = Inr vsid"
    and "vsid \<noteq> []"
  shows "vector_store_id (fst (snd (process_documents e key uuid docs (s, w)))) = Some vsid \<and>
         process_documents e key uuid docs (s\<lparr>vector_store_id := old_id, file_ids := old_handles\<rparr>, w) =
           process_documents e key uuid docs (s, w) \<and>
         concat (map attached_ids (calls (snd (snd (process_documents e key uuid docs (s, w)))))) =
           concat (map attached_ids (calls w)) @
             file_ids (fst (snd (process_documents e key uuid docs (s, w)))) \<and>
         (fst (process_documents e key uuid docs (s, w)) = None \<longrightarrow>
            messages (fst (snd (process_documents e key uuid docs (s, w)))) = [] \<and>
            process_documents e key uuid docs (s, w) =
              process_documents e key uuid docs (initial_session_state, w))"
proof -
  let ?w1 = "do_call (VectorStoresCreate key (''knowledge_base_'' @ uuid)) w"
  let ?t = "initial_session_state\<lparr>vector_store_id := Some vsid, file_ids := []\<rparr>"
  let ?start = "(s\<lparr>vector_store_id := Some vsid, file_ids := []\<rparr>, ?w1)"
  let ?r = "process_files e key vsid docs (?t, ?w1)"
  let ?q = "process_files e key vsid docs ?start"
  have id: "vector_store_id (fst (snd (process_documents e key uuid docs (s, w)))) = Some vsid"
    by (rule process_documents_session(1) [OF assms])
  have indep: "process_documents e key uuid docs (s\<lparr>vector_store_id := old_id, file_ids := old_handles\<rparr>, w) =
                 process_documents e key uuid docs (s, w)"
    unfolding process_documents_created [OF assms] by simp
  obtain ids where at: "file_ids (fst (snd ?q)) = ids"
      "concat (map attached_ids (calls (snd (snd ?q)))) = concat (map attached_ids (calls ?w1)) @ ids"
    using process_files_attaches [of e key vsid docs ?start] by auto
  have w1a: "concat (map attached_ids (calls ?w1)) = concat (map attached_ids (calls w))"
    by (simp add: do_call_def)
  have batch: "concat (map attached_ids (calls (snd (snd (process_documents e key uuid docs (s, w)))))) =
                 concat (map attached_ids (calls w)) @
                   file_ids (fst (snd (process_documents e key uuid docs (s, w))))"
    unfolding process_documents_session(2) [OF assms] process_documents_session(3) [OF assms]
    using at w1a by simp
  have st: "s\<lparr>vector_store_id := Some vsid, file_ids := []\<rparr> = ?t\<lparr>messages := messages s\<rparr>"
    by (simp add: initial_session_state_def)
  have rs: "?q = (fst ?r, (fst (snd ?r))\<lparr>messages := messages s\<rparr>, snd (snd ?r))"
    unfolding st by (rule process_files_messages_update)
  have a: "process_documents e key uuid docs (s, w) =
             (case fst ?r of
                Some ex \<Rightarrow> (fst ?r, (fst (snd ?r))\<lparr>messages := messages s\<rparr>, snd (snd ?r))
              | None \<Rightarrow>
                  (None,
                   (fst (snd ?r))\<lparr>messages := []\<rparr>,
                   render (St_info ''You can now start chatting with your documents!'')
                     (render (St_success (''Successfully processed '' @
                                str_nat (length (file_ids (fst (snd ?r)))) @ '' document(s)''))
                        (snd (snd ?r)))))"
    unfolding process_documents_created [OF assms] Let_def rs
    by (cases "fst ?r") simp_all
  have b: "process_documents e key uuid docs (initial_session_state, w) =
             (case fst ?r of
                Some ex \<Rightarrow> ?r
              | None \<Rightarrow>
                  (None,
                   (fst (snd ?r))\<lparr>messages := []\<rparr>,
                   render (St_info ''You can now start chatting with your documents!'')
                     (render (St_success (''Successfully processed '' @
                                str_nat (length (file_ids (fst (snd ?r)))) @ '' document(s)''))
                        (snd (snd ?r)))))"
    unfolding process_documents_created [OF assms] Let_def by simp
  have ret: "fst (process_documents e key uuid docs (s, w)) = None \<longrightarrow>
               messages (fst (snd (process_documents e key uuid docs (s, w)))) = [] \<and>
               process_documents e key uuid docs (s, w) =
                 process_documents e key uuid docs (initial_session_state, w)"
    unfolding a b by (cases "fst ?r") simp_all
  show ?thesis
    using id indep batch ret by blast
qed

theorem C3_reprocess_replaces_session_witness:
  "vector_stores_create provider_ok
      (calls empty_world @ [VectorStoresCreate ''sk-test'' (''knowledge_base_'' @ ''6f1c'')]) = Inr ''vs_1'' \<and>
   ''vs_1'' \<noteq> [] \<and>
   process_documents provider_ok ''sk-test'' ''6f1c'' [report] (old_session, empty_world) =
     (None,
      \<lparr>messages = [], vector_store_id = Some ''vs_1'', file_ids = [''file-2'']\<rparr>,
      \<lparr>calls = [VectorStoresCreate ''sk-test'' ''knowledge_base_6f1c'',
                FilesCreate ''sk-test'' ''/tmp/tmpk3x9w2ab_report.pdf'' ''%PDF-1.4 Q3 budget'' ''assistants'',
                VectorStoresFilesCreate ''sk-test'' ''vs_1'' ''file-2''],
       files = {},
       ui = [St_success ''Added report.pdf to knowledge base'',
             St_success ''Successfully processed 1 document(s)'',
             St_info ''You can now start chatting with your documents!'']\<rparr>) \<and>
   process_documents provider_ok ''sk-test'' ''6f1c'' [report]
       (old_session\<lparr>vector_store_id := None, file_ids := [''file-9'']\<rparr>, empty_world) =
     process_documents provider_ok ''sk-test'' ''6f1c'' [report] (old_session, empty_world) \<and>
   process_documents provider_ok ''sk-test'' ''6f1c'' [report] (old_session, empty_world) =
     process_documents provider_ok ''sk-test'' ''6f1c'' [report] (initial_session_state, empty_world)"
proof -
  have h: "vector_stores_create provider_ok
      (calls empty_world @ [VectorStoresCreate ''sk-test'' (''knowledge_base_'' @ ''6f1c'')]) = Inr ''vs_1''"
    by (simp add: scenario_defs)
  have n: "''vs_1'' \<noteq> []" by simp
  have ev: "process_documents provider_ok ''sk-test'' ''6f1c'' [report] (old_session, empty_world) =
     (None,
      \<lparr>messages = [], vector_store_id = Some ''vs_1'', file_ids = [''file-2'']\<rparr>,
      \<lparr>calls = [VectorStoresCreate ''sk-test'' ''knowledge_base_6f1c'',
                FilesCreate ''sk-test'' ''/tmp/tmpk3x9w2ab_report.pdf'' ''%PDF-1.4 Q3 budget'' ''assistants'',
                VectorStoresFilesCreate ''sk-test'' ''vs_1'' ''file-2''],
       files = {},
       ui = [St_success ''Added report.pdf to knowledge base'',
             St_success ''Successfully processed 1 document(s)'',
             St_info ''You can now start chatting with your documents!'']\<rparr>)"
    by (simp add: handler_defs script_defs scenario_defs)
  have ret: "fst (process_documents provider_ok ''sk-test'' ''6f1c'' [report] (old_session, empty_world)) = None"
    by (simp add: ev)
  show ?thesis
    using h n ev ret
      C3_reprocess_replaces_session [OF h n, where docs = "[report]" and s = old_session
        and old_id = None and old_handles = "[''file-9'']"]
    by simp
qed

text \<open>
  C3 as stated fails, in two ways. A first batch succeeds; the user picks another document
  and presses the button again, and this time the creation is refused: the guard of line 81
  skips the whole body, and the session still holds the previous collection and the previous
  handle. And the transcript is not emptied before the new list is populated: after a batch
  and an answered question, a batch with a document whose name is too long for a file name
  ends at line 35 with an uncaught exception, and the session holds the new collection
  \<open>vs_5\<close> together with the transcript of the previous one.
\<close>

theorem C3_reprocess_keeps_old_state:
  "fst (run second_create_fails process_click (initial_session_state, empty_world)) =
     \<lparr>messages = [], vector_store_id = Some ''vs_1'', file_ids = [''file-2'']\<rparr> \<and>
   fst (run second_create_fails (process_click\<lparr>uploaded_files := [minutes]\<rparr>)
          (run second_create_fails process_click (initial_session_state, empty_world))) =
     \<lparr>messages = [], vector_store_id = Some ''vs_1'', file_ids = [''file-2'']\<rparr> \<and>
   fst (run provider_ok question_asked
          (run provider_ok process_click (initial_session_state, empty_world))) =
     \<lparr>messages = [\<lparr>role = ''user'', content = ''What is the budget in Q3?''\<rparr>,
                  \<lparr>role = ''assistant'', content = ''The Q3 budget is 40.''\<rparr>],
      vector_store_id = Some ''vs_1'', file_ids = [''file-2'']\<rparr> \<and>
   fst (run provider_ok (process_click\<lparr>uploaded_files := [long_name]\<rparr>)
          (run provider_ok question_asked
             (run provider_ok process_click (initial_session_state, empty_world)))) =
     \<lparr>messages = [\<lparr>role = ''user'', content = ''What is the budget in Q3?''\<rparr>,
                  \<lparr>role = ''assistant'', content = ''The Q3 budget is 40.''\<rparr>],
      vector_store_id = Some ''vs_5'', file_ids = []\<rparr>"
  by (simp add: handler_defs script_defs scenario_defs)

subsection \<open>Asking\<close>

text \<open>
  C4. With a client and a non-empty collection identifier, when the chat request raises, the
  transcript is the old one followed by the user's question, with no assistant entry, and the
  error is shown in the placeholder.
\<close>

theorem C4_failed_chat_keeps_question_only:
  assumes "vector_store_id s = Some vsid" and "vsid \<noteq> []"
    and "responses_create e (calls w @ [chat_request key vsid question]) = Inl ex"
  shows "messages (fst (ask e (Some key) question (s, w))) =
           messages s @ [\<lparr>role = ''user'', content = question\<rparr>] \<and>
         ui (snd (ask e (Some key) question (s, w))) = ui w @ [Placeholder_error (''Error: '' @ str ex)]"
  using assms by (simp add: ask_def do_call_def render_def Let_def)

theorem C4_failed_chat_keeps_question_only_witness:
  "vector_store_id active_session = Some ''vs_1'' \<and> ''vs_1'' \<noteq> [] \<and>
   responses_create chat_fails
     (calls empty_world @ [chat_request ''sk-test'' ''vs_1'' ''What is the budget in Q3?'']) =
     Inl (Exception ''timeout'') \<and>
   messages (fst (ask chat_fails (Some ''sk-test'') ''What is the budget in Q3?'' (active_session, empty_world))) =
     [\<lparr>role = ''user'', content = ''What is the budget in Q3?''\<rparr>] \<and>
   ui (snd (ask chat_fails (Some ''sk-test'') ''What is the budget in Q3?'' (active_session, empty_world))) =
     [Placeholder_error ''Error: timeout'']"
proof -
  have a: "vector_store_id active_session = Some ''vs_1''" by (simp add: active_session_def)
  have b: "''vs_1'' \<noteq> []" by simp
  have c: "responses_create chat_fails
             (calls empty_world @ [chat_request ''sk-test'' ''vs_1'' ''What is the budget in Q3?'']) =
           Inl (Exception ''timeout'')"
    by (simp add: scenario_defs)
  show ?thesis
    using a b c C4_failed_chat_keeps_question_only [OF a b c]
    by (simp add: active_session_def empty_world_def)
qed

text \<open>
  C5. When the session holds no collection identifier, asking makes no provider call at all
  (the call log is unchanged) and the placeholder shows the fixed instructional message: the
  one about the key when there is no client, the one about uploading documents otherwise.
\<close>

theorem C5_no_collection_no_provider_call:
  assumes "vector_store_id s = None"
  shows "calls (snd (ask e client question (s, w))) = calls w \<and>
         ui (snd (ask e client question (s, w))) =
           ui w @ [Placeholder_write (case client of None \<Rightarrow> key_message | Some key \<Rightarrow> upload_message)]"
  using assms by (simp add: ask_def render_def Let_def split: option.splits)

theorem C5_no_collection_no_provider_call_witness:
  "vector_store_id initial_session_state = None \<and>
   calls (snd (ask provider_ok (Some ''sk-test'') ''What is the budget in Q3?''
                 (initial_session_state, empty_world))) = [] \<and>
   ui (snd (ask provider_ok (Some ''sk-test'') ''What is the budget in Q3?''
              (initial_session_state, empty_world))) =
     [Placeholder_write ''Please upload and process documents first.'']"
proof -
  have a: "vector_store_id initial_session_state = None" by (simp add: initial_session_state_def)
  show ?thesis
    using a C5_no_collection_no_provider_call [OF a, of provider_ok "Some ''sk-test''"
        "''What is the budget in Q3?''" empty_world]
    by (simp add: empty_world_def upload_message_def)
qed

subsection \<open>Clearing\<close>

text \<open>
  C6. Whatever the session state was, the clear handler leaves no collection identifier, an
  empty handle list and an empty transcript.
\<close>

theorem C6_clear_all_documents_resets:
  "vector_store_id (fst (clear_all_documents (s, w))) = None \<and>
   file_ids (fst (clear_all_documents (s, w))) = [] \<and>
   messages (fst (clear_all_documents (s, w))) = []"
  by (simp add: clear_all_documents_def)

theorem C6_clear_all_documents_resets_witness:
  "fst (clear_all_documents (old_session, empty_world)) =
     \<lparr>messages = [], vector_store_id = None, file_ids = []\<rparr>"
  using C6_clear_all_documents_resets [of old_session empty_world]
  by (cases "fst (clear_all_documents (old_session, empty_world))") simp

subsection \<open>Failures inside a batch\<close>

text \<open>
  C7. When the creation of the collection raises, the handler returns, having made no other
  provider call (no upload, no attach: the creation request is the only addition to the call
  log), written no file and left the session state as it was.
\<close>

theorem C7_creation_failure_aborts_batch:
  assumes "vector_stores_create e (calls w @ [VectorStoresCreate key (''knowledge_base_'' @ uuid)]) = Inl ex"
  shows "fst (process_documents e key uuid docs (s, w)) = None \<and>
         fst (snd (process_documents e key uuid docs (s, w))) = s \<and>
         calls (snd (snd (process_documents e key uuid docs (s, w)))) =
           calls w @ [VectorStoresCreate key (''knowledge_base_'' @ uuid)] \<and>
         files (snd (snd (process_documents e key uuid docs (s, w)))) = files w"
  using assms by (simp add: process_documents_def create_vector_store_def do_call_def render_def)

theorem C7_creation_failure_aborts_batch_witness:
  "vector_stores_create create_fails
     (calls empty_world @ [VectorStoresCreate ''sk-test'' (''knowledge_base_'' @ ''6f1c'')]) =
     Inl (Exception ''rate limit'') \<and>
   fst (process_documents create_fails ''sk-test'' ''6f1c'' [report, minutes]
          (initial_session_state, empty_world)) = None \<and>
   fst (snd (process_documents create_fails ''sk-test'' ''6f1c'' [report, minutes]
               (initial_session_state, empty_world))) =
     initial_session_state \<and>
   calls (snd (snd (process_documents create_fails ''sk-test'' ''6f1c'' [report, minutes]
                      (initial_session_state, empty_world)))) =
     [VectorStoresCreate ''sk-test'' ''knowledge_base_6f1c''] \<and>
   files (snd (snd (process_documents create_fails ''sk-test'' ''6f1c'' [report, minutes]
                      (initial_session_state, empty_world)))) = {}"
proof -
  have h: "vector_stores_create create_fails
             (calls empty_world @ [VectorStoresCreate ''sk-test'' (''knowledge_base_'' @ ''6f1c'')]) =
           Inl (Exception ''rate limit'')"
    by (simp add: scenario_defs)
  show ?thesis
    using h C7_creation_failure_aborts_batch [OF h, of "[report, minutes]" initial_session_state]
    by (simp add: empty_world_def)
qed



text \<open>
  C9. Whenever \<open>upload_file_to_openai\<close> returns, with an identifier or with \<open>None\<close>, the
  transient file it created does not exist. And it does return, on the success path and on
  the failure path of the upload alike, when the disk writes and removes the file.
\<close>

theorem C9_transient_file_removed:
  assumes "named_temporary_file e (files w) (''_'' @ name uploaded_file) = Inr path"
  shows "(\<forall>result. fst (upload_file_to_openai e key uploaded_file w) = Inr result \<longrightarrow>
            path \<notin> files (snd (upload_file_to_openai e key uploaded_file w))) \<and>
         (tmp_file_write e path (getvalue uploaded_file) = None \<and> os_remove e path 0 = None \<longrightarrow>
            (\<exists>result. fst (upload_file_to_openai e key uploaded_file w) = Inr result))"
proof -
  have gone: "\<forall>result. fst (upload_file_to_openai e key uploaded_file w) = Inr result \<longrightarrow>
                path \<notin> files (snd (upload_file_to_openai e key uploaded_file w))"
    using upload_returned_gone [OF assms] by blast
  have returns: "\<exists>result. fst (upload_file_to_openai e key uploaded_file w) = Inr result"
    if wr: "tmp_file_write e path (getvalue uploaded_file) = None" and rm: "os_remove e path 0 = None"
  proof (cases "open_rb e path")
    case None
    show ?thesis using upload_returns(1) [OF assms wr None rm, of key] by simp
  next
    case (Some ex)
    have "upload_file_to_openai e key uploaded_file w =
            upload_failed e path 0 ex (w\<lparr>files := insert path (files w)\<rparr>)"
      using assms wr Some by (simp add: upload_file_to_openai_def Let_def)
    then show ?thesis using upload_failed_returns(1) [OF rm] by simp
  qed
  show ?thesis using gone returns by blast
qed

theorem C9_transient_file_removed_witness:
  "named_temporary_file provider_ok (files empty_world) (''_'' @ name report) =
     Inr ''/tmp/tmpk3x9w2ab_report.pdf'' \<and>
   named_temporary_file upload_fails (files empty_world) (''_'' @ name report) =
     Inr ''/tmp/tmpk3x9w2ab_report.pdf'' \<and>
   tmp_file_write provider_ok ''/tmp/tmpk3x9w2ab_report.pdf'' (getvalue report) = None \<and>
   os_remove provider_ok ''/tmp/tmpk3x9w2ab_report.pdf'' 0 = None \<and>
   tmp_file_write upload_fails ''/tmp/tmpk3x9w2ab_report.pdf'' (getvalue report) = None \<and>
   os_remove upload_fails ''/tmp/tmpk3x9w2ab_report.pdf'' 0 = None \<and>
   fst (upload_file_to_openai provider_ok ''sk-test'' report empty_world) = Inr (Some ''file-1'') \<and>
   fst (upload_file_to_openai upload_fails ''sk-test'' report empty_world) = Inr None \<and>
   ''/tmp/tmpk3x9w2ab_report.pdf'' \<notin>
     files (snd (upload_file_to_openai provider_ok ''sk-test'' report empty_world)) \<and>
   ''/tmp/tmpk3x9w2ab_report.pdf'' \<notin>
     files (snd (upload_file_to_openai upload_fails ''sk-test'' report empty_world))"
proof -
  have t1: "named_temporary_file provider_ok (files empty_world) (''_'' @ name report) =
              Inr ''/tmp/tmpk3x9w2ab_report.pdf''"
    by (simp add: scenario_defs)
  have t2: "named_temporary_file upload_fails (files empty_world) (''_'' @ name report) =
              Inr ''/tmp/tmpk3x9w2ab_report.pdf''"
    by (simp add: scenario_defs)
  have d1: "tmp_file_write provider_ok ''/tmp/tmpk3x9w2ab_report.pdf'' (getvalue report) = None"
      "os_remove provider_ok ''/tmp/tmpk3x9w2ab_report.pdf'' 0 = None"
    by (simp_all add: scenario_defs)
  have d2: "tmp_file_write upload_fails ''/tmp/tmpk3x9w2ab_report.pdf'' (getvalue report) = None"
      "os_remove upload_fails ''/tmp/tmpk3x9w2ab_report.pdf'' 0 = None"
    by (simp_all add: scenario_defs)
  have r1: "fst (upload_file_to_openai provider_ok ''sk-test'' report empty_world) = Inr (Some ''file-1'')"
    by (simp add: handler_defs scenario_defs)
  have r2: "fst (upload_file_to_openai upload_fails ''sk-test'' report empty_world) = Inr None"
    by (simp add: handler_defs scenario_defs)
  have g1: "''/tmp/tmpk3x9w2ab_report.pdf'' \<notin>
              files (snd (upload_file_to_openai provider_ok ''sk-test'' report empty_world))"
    using C9_transient_file_removed [OF t1, of "''sk-test''"] r1 by blast
  have g2: "''/tmp/tmpk3x9w2ab_report.pdf'' \<notin>
              files (snd (upload_file_to_openai upload_fails ''sk-test'' report empty_world))"
    using C9_transient_file_removed [OF t2, of "''sk-test''"] r2 by blast
  show ?thesis
    using t1 t2 d1 d2 r1 r2 g1 g2 by blast
qed

subsection \<open>The question always enters the transcript\<close>

text \<open>
  C10. Whatever the client, the collection identifier and the provider's answer, the
  transcript after asking starts with the old transcript followed by the user's question, and
  at most the assistant's answer follows. Without a client the placeholder shows the message
  about the key, no provider call is made and nothing else is appended, also when the
  collection identifier is missing too.
\<close>

theorem C10_question_appended_on_every_path:
  "take (Suc (length (messages s))) (messages (fst (ask e client question (s, w)))) =
     messages s @ [\<lparr>role = ''user'', content = question\<rparr>] \<and>
   length (messages (fst (ask e client question (s, w)))) \<le> length (messages s) + 2 \<and>
   (client = None \<longrightarrow>
      messages (fst (ask e client question (s, w))) =
        messages s @ [\<lparr>role = ''user'', content = question\<rparr>] \<and>
      calls (snd (ask e client question (s, w))) = calls w \<and>
      ui (snd (ask e client question (s, w))) = ui w @ [Placeholder_write key_message])"
  by (simp add: ask_def render_def do_call_def Let_def split: option.splits sum.splits)

theorem C10_question_appended_on_every_path_witness:
  "take (Suc (length (messages old_session)))
      (messages (fst (ask provider_ok (Some ''sk-test'') ''And in Q4?'' (old_session, empty_world)))) =
     messages old_session @ [\<lparr>role = ''user'', content = ''And in Q4?''\<rparr>] \<and>
   vector_store_id initial_session_state = None \<and>
   messages (fst (ask provider_ok None ''What is the budget in Q3?'' (initial_session_state, empty_world))) =
     [\<lparr>role = ''user'', content = ''What is the budget in Q3?''\<rparr>] \<and>
   calls (snd (ask provider_ok None ''What is the budget in Q3?'' (initial_session_state, empty_world))) = [] \<and>
   ui (snd (ask provider_ok None ''What is the budget in Q3?'' (initial_session_state, empty_world))) =
     [Placeholder_write ''Please enter your OpenAI API key in the sidebar.'']"
  using C10_question_appended_on_every_path
      [of old_session provider_ok "Some ''sk-test''" "''And in Q4?''" empty_world]
    C10_question_appended_on_every_path
      [of initial_session_state provider_ok None "''What is the budget in Q3?''" empty_world]
  by (simp add: initial_session_state_def empty_world_def key_message_def)

end
